theory Spec2Isabelle
  imports Complex_Main
begin

section \<open>Strings and values of the program\<close>

text \<open>
  Python strings are modelled as \<open>string\<close>, one \<open>char\<close> per code point, restricted to
  the code points below 256 (Latin-1); the accented letters of the program's messages are
  written by their code point. A value held in a query result is a \<open>str\<close> (the diagnostic
  messages) or a tuple of scalars (a row); the scalars modelled are \<open>None\<close>, \<open>int\<close> and
  \<open>str\<close>.
\<close>

datatype scalar = SNone | SInt int | SStr string

datatype pyval = PStr string | PTuple "scalar list"

text \<open>\<open>str.isspace\<close> on one code point below 256.\<close>

definition isspace :: "char \<Rightarrow> bool" where
  "isspace c = (let n = (of_char c :: nat) in
     (9 \<le> n \<and> n \<le> 13) \<or> (28 \<le> n \<and> n \<le> 32) \<or> n = 133 \<or> n = 160)"

text \<open>\<open>str.strip()\<close> with no argument.\<close>

definition lstrip :: "string \<Rightarrow> string" where
  "lstrip s = dropWhile isspace s"

definition rstrip :: "string \<Rightarrow> string" where
  "rstrip s = rev (dropWhile isspace (rev s))"

definition strip :: "string \<Rightarrow> string" where
  "strip s = rstrip (lstrip s)"

text \<open>\<open>str.lower()\<close> on code points below 256.\<close>

definition lower_char :: "char \<Rightarrow> char" where
  "lower_char c = (let n = (of_char c :: nat) in
     if (65 \<le> n \<and> n \<le> 90) \<or> (192 \<le> n \<and> n \<le> 222 \<and> n \<noteq> 215)
     then char_of (n + 32) else c)"

definition lower :: "string \<Rightarrow> string" where
  "lower s = map lower_char s"

text \<open>\<open>str.startswith\<close>.\<close>

fun startswith :: "string \<Rightarrow> string \<Rightarrow> bool" where
  "startswith s [] = True"
| "startswith [] (p # ps) = False"
| "startswith (c # cs) (p # ps) = (c = p \<and> startswith cs ps)"

text \<open>\<open>sep.join(xs)\<close>.\<close>

fun join :: "string \<Rightarrow> string list \<Rightarrow> string" where
  "join sep [] = []"
| "join sep [x] = x"
| "join sep (x # y # ys) = x @ sep @ join sep (y # ys)"

text \<open>Decimal rendering of integers, as \<open>str\<close> on an \<open>int\<close>.\<close>

definition digit_char :: "nat \<Rightarrow> char" where
  "digit_char d = char_of (48 + d)"

fun str_nat :: "nat \<Rightarrow> string" where
  "str_nat n = (if n < 10 then [digit_char n] else str_nat (n div 10) @ [digit_char (n mod 10)])"

declare str_nat.simps [simp del]

definition str_int :: "int \<Rightarrow> string" where
  "str_int i = (if i < 0 then CHR ''-'' # str_nat (nat (- i)) else str_nat (nat i))"

text \<open>\<open>repr\<close> of a \<open>str\<close>: the quote is the double quote only when the text holds a
  single quote and no double quote; backslash, the quote, tab, newline and carriage return
  are escaped, the other non-printable code points are written \<open>\xhh\<close>.\<close>

definition hex_digit :: "nat \<Rightarrow> char" where
  "hex_digit d = (if d < 10 then char_of (48 + d) else char_of (87 + d))"

definition isprintable :: "char \<Rightarrow> bool" where
  "isprintable c = (let n = (of_char c :: nat) in
     (32 \<le> n \<and> n \<le> 126) \<or> (161 \<le> n \<and> n \<noteq> 173))"

definition repr_char :: "char \<Rightarrow> char \<Rightarrow> string" where
  "repr_char q c =
     (if c = q \<or> c = CHR 0x5C then [CHR 0x5C, c]
      else if c = CHR 0x09 then [CHR 0x5C, CHR ''t'']
      else if c = CHR 0x0A then [CHR 0x5C, CHR ''n'']
      else if c = CHR 0x0D then [CHR 0x5C, CHR ''r'']
      else if isprintable c then [c]
      else [CHR 0x5C, CHR ''x'', hex_digit ((of_char c :: nat) div 16),
            hex_digit ((of_char c :: nat) mod 16)])"

definition repr_str :: "string \<Rightarrow> string" where
  "repr_str s =
     (let q = (if CHR 0x27 \<in> set s \<and> CHR 0x22 \<notin> set s then CHR 0x22 else CHR 0x27)
      in q # concat (map (repr_char q) s) @ [q])"

fun str_scalar :: "scalar \<Rightarrow> string" where
  "str_scalar SNone = ''None''"
| "str_scalar (SInt i) = str_int i"
| "str_scalar (SStr s) = s"

fun repr_scalar :: "scalar \<Rightarrow> string" where
  "repr_scalar SNone = ''None''"
| "repr_scalar (SInt i) = str_int i"
| "repr_scalar (SStr s) = repr_str s"

text \<open>\<open>str\<close> of a value, as an f-string renders it; a one-element tuple keeps its
  trailing comma.\<close>

fun py_str :: "pyval \<Rightarrow> string" where
  "py_str (PStr s) = s"
| "py_str (PTuple [v]) = ''('' @ repr_scalar v @ '',)''"
| "py_str (PTuple vs) = ''('' @ join '', '' (map repr_scalar vs) @ '')''"

section \<open>Result Formatter\<close>

text \<open>Iterating over a value: a tuple yields its scalars, a \<open>str\<close> its characters;
  each is passed to \<open>str\<close>.\<close>

fun str_items :: "pyval \<Rightarrow> string list" where
  "str_items (PStr s) = map (\<lambda>c. [c]) s"
| "str_items (PTuple vs) = map str_scalar vs"

text \<open>One line of the numbered list: \<open>f"{i+1}. {', '.join(str(v) for v in fila)}"\<close>.\<close>

definition linea :: "nat \<Rightarrow> pyval \<Rightarrow> string" where
  "linea i fila = str_nat (i + 1) @ ''. '' @ join '', '' (str_items fila)"

text \<open>\<open>formatear_resultado\<close>: a one-element sequence gives its element itself, of
  whatever type it is; any other sequence gives the joined numbered lines.\<close>

definition formatear_resultado :: "pyval list \<Rightarrow> pyval" where
  "formatear_resultado resultado =
     (if length resultado = 1 then hd resultado
      else PStr (join [CHR 0x0A] (map (\<lambda>(i, fila). linea i fila) (enumerate 0 resultado))))"

section \<open>Text utilities\<close>

text \<open>
  \<open>re.sub(patron, r"\1", texto)\<close> for a pattern of the shape \<open>D(.+?)D\<close> with a literal
  delimiter \<open>D\<close>. The lazy group takes the fewest characters, at least one and none of
  them a newline, after which the delimiter follows.
\<close>

fun lazy_group :: "string \<Rightarrow> string \<Rightarrow> (string \<times> string) option" where
  "lazy_group d [] = None"
| "lazy_group d (c # cs) =
     (if c = CHR 0x0A then None
      else if startswith cs d then Some ([c], drop (length d) cs)
      else (case lazy_group d cs of
              None \<Rightarrow> None
            | Some (g, r) \<Rightarrow> Some (c # g, r)))"

text \<open>A match starting at the head of the text: the captured group and the text left
  after the match.\<close>

definition match_delim :: "string \<Rightarrow> string \<Rightarrow> (string \<times> string) option" where
  "match_delim d s = (if startswith s d then lazy_group d (drop (length d) s) else None)"

lemma lazy_group_shorter: "lazy_group d s = Some (g, r) \<Longrightarrow> length r < length s"
  by (induction s arbitrary: g r) (auto split: if_splits option.splits)

lemma match_delim_shorter: "match_delim d s = Some (g, r) \<Longrightarrow> length r < length s"
  by (auto simp: match_delim_def split: if_splits dest!: lazy_group_shorter)

text \<open>The leftmost matches, one after the other, each replaced by its group; the scan
  resumes where a match ended.\<close>

function sub_delim :: "string \<Rightarrow> string \<Rightarrow> string" where
  "sub_delim d [] = []"
| "sub_delim d (c # cs) =
     (case match_delim d (c # cs) of
        Some (g, r) \<Rightarrow> g @ sub_delim d r
      | None \<Rightarrow> c # sub_delim d cs)"
  by pat_completeness auto
termination
  by (relation "measure (\<lambda>(d, s). length s)") (auto dest: match_delim_shorter)

text \<open>The delimiters of \<open>patrones\<close>, in the order of the source: bold with asterisks,
  bold with underscores, italics with an asterisk, italics with an underscore, inline
  code.\<close>

definition patrones :: "string list" where
  "patrones = [''**'', ''__'', ''*'', ''_'', ''`'']"

definition limpiar_markdown :: "string \<Rightarrow> string" where
  "limpiar_markdown texto = strip (fold sub_delim patrones texto)"

text \<open>
  \<open>re.sub(r"```sql\s*|\s*```", "", sql)\<close>. At a position the first alternative is tried
  first; \<open>\s*\<close> is greedy, and giving whitespace back never helps since a backtick is
  not whitespace.
\<close>

definition fence :: string where
  "fence = ''```''"

definition match_fence :: "string \<Rightarrow> string option" where
  "match_fence s =
     (if startswith s (fence @ ''sql'') then Some (dropWhile isspace (drop 6 s))
      else (let t = dropWhile isspace s in
            if startswith t fence then Some (drop 3 t) else None))"

lemma match_fence_shorter: "match_fence s = Some r \<Longrightarrow> length r < length s"
proof -
  assume m: "match_fence s = Some r"
  have dw: "length (dropWhile isspace xs) \<le> length xs" for xs
    by (induction xs) auto
  show ?thesis
  proof (cases "startswith s (fence @ ''sql'')")
    case True
    then have "s \<noteq> []" by (cases s) (auto simp: fence_def)
    moreover from True m have "r = dropWhile isspace (drop 6 s)"
      by (simp add: match_fence_def)
    moreover have "length (dropWhile isspace (drop 6 s)) \<le> length s - 6"
      using dw [of "drop 6 s"] by simp
    ultimately show ?thesis by (cases s) auto
  next
    case False
    with m have t: "startswith (dropWhile isspace s) fence" and r: "r = drop 3 (dropWhile isspace s)"
      by (auto simp: match_fence_def Let_def split: if_splits)
    from t have "dropWhile isspace s \<noteq> []" by (cases "dropWhile isspace s") (auto simp: fence_def)
    then have "length (drop 3 (dropWhile isspace s)) < length (dropWhile isspace s)" by simp
    with dw [of s] r show ?thesis by simp
  qed
qed

function sub_fence :: "string \<Rightarrow> string" where
  "sub_fence [] = []"
| "sub_fence (c # cs) =
     (case match_fence (c # cs) of
        Some r \<Rightarrow> sub_fence r
      | None \<Rightarrow> c # sub_fence cs)"
  by pat_completeness auto
termination
  by (relation "measure length") (auto dest: match_fence_shorter)

text \<open>The post-processing of \<open>generar_sql\<close> on the content of the model's reply:
  \<open>.strip()\<close>, then the substitution.\<close>

definition quitar_cercas :: "string \<Rightarrow> string" where
  "quitar_cercas contenido = sub_fence (strip contenido)"

section \<open>Exceptions and JSON values\<close>

text \<open>
  An exception is its class and its message (\<open>str(e)\<close>). The classes of the
  \<open>requests\<close> library that a request can raise are subclasses of
  \<open>RequestException\<close>; the two timeouts are subclasses of \<open>Timeout\<close> as well.
\<close>

datatype clase =
    ConnectTimeout | ReadTimeout | ConnectionError | HTTPError | JSONDecodeError
  | KeyError | IndexError | TypeError | AttributeError | EOFError
  | OperationalError | InternalError

datatype excepcion = Excepcion (clase_de: clase) (mensaje_de: string)

fun es_Timeout :: "clase \<Rightarrow> bool" where
  "es_Timeout ConnectTimeout = True"
| "es_Timeout ReadTimeout = True"
| "es_Timeout _ = False"

fun es_RequestException :: "clase \<Rightarrow> bool" where
  "es_RequestException ConnectTimeout = True"
| "es_RequestException ReadTimeout = True"
| "es_RequestException ConnectionError = True"
| "es_RequestException HTTPError = True"
| "es_RequestException JSONDecodeError = True"
| "es_RequestException _ = False"

text \<open>A decoded JSON document; an object is the dictionary it decodes to (keys
  distinct), numbers are the integers.\<close>

datatype json =
    JNull | JBool bool | JInt int | JStr string | JArr "json list"
  | JObj "(string \<times> json) list"

text \<open>\<open>x[clave]\<close> with a \<open>str\<close> key.\<close>

fun item_clave :: "json \<Rightarrow> string \<Rightarrow> excepcion + json" where
  "item_clave (JObj kvs) k =
     (case map_of kvs k of
        None \<Rightarrow> Inl (Excepcion KeyError (repr_str k))
      | Some v \<Rightarrow> Inr v)"
| "item_clave _ k = Inl (Excepcion TypeError ''indices must be integers or the value is not subscriptable'')"

text \<open>\<open>x[0]\<close>.\<close>

fun item_0 :: "json \<Rightarrow> excepcion + json" where
  "item_0 (JArr []) = Inl (Excepcion IndexError ''list index out of range'')"
| "item_0 (JArr (x # xs)) = Inr x"
| "item_0 (JStr []) = Inl (Excepcion IndexError ''string index out of range'')"
| "item_0 (JStr (c # cs)) = Inr (JStr [c])"
| "item_0 (JObj kvs) = Inl (Excepcion KeyError ''0'')"
| "item_0 _ = Inl (Excepcion TypeError ''the value is not subscriptable'')"

text \<open>\<open>respuesta["choices"][0]["message"]["content"]\<close>.\<close>

definition contenido :: "json \<Rightarrow> excepcion + json" where
  "contenido respuesta =
     (case item_clave respuesta ''choices'' of
        Inl e \<Rightarrow> Inl e
      | Inr cs \<Rightarrow>
          (case item_0 cs of
             Inl e \<Rightarrow> Inl e
           | Inr c \<Rightarrow>
               (case item_clave c ''message'' of
                  Inl e \<Rightarrow> Inl e
                | Inr m \<Rightarrow> item_clave m ''content'')))"

section \<open>Chat Client\<close>

record mensaje =
  role :: string
  content :: string

record carga =
  model :: string
  messages :: "mensaje list"
  temperature :: rat
  top_p :: rat
  max_tokens :: int

record ModeloRemoto =
  url_base :: string
  nombre_modelo :: string

text \<open>The reply of the server as \<open>requests\<close> holds it: status line, address, and the
  body, either decoded or, when it is not a JSON document, the message of the decoding
  error.\<close>

record respuesta_http =
  status_code :: nat
  reason :: string
  url :: string
  cuerpo :: "string + json"

text \<open>What \<open>requests.post\<close> does: it raises, or it returns a reply. The transport is
  a parameter of the model; its answer may depend on the requests sent before.\<close>

datatype envio = Lanza excepcion | Recibe respuesta_http

type_synonym transporte = "(string \<times> carga) list \<Rightarrow> string \<Rightarrow> carga \<Rightarrow> envio"

definition URL_BASE_LM :: string where
  "URL_BASE_LM = ''http://192.168.1.60:1234/v1''"

definition NOMBRE_MODELO :: string where
  "NOMBRE_MODELO = ''gemma-3-12b-it-qat''"

text \<open>\<open>ModeloRemoto.__init__\<close>: the base address loses its trailing slashes.\<close>

definition ModeloRemoto_init :: "string \<Rightarrow> string \<Rightarrow> ModeloRemoto" where
  "ModeloRemoto_init u n =
     \<lparr>url_base = rev (dropWhile (\<lambda>c. c = CHR ''/'') (rev u)), nombre_modelo = n\<rparr>"

text \<open>\<open>Response.raise_for_status\<close> and \<open>Response.json\<close>.\<close>

definition raise_for_status :: "respuesta_http \<Rightarrow> excepcion option" where
  "raise_for_status r =
     (if 400 \<le> status_code r \<and> status_code r < 500
      then Some (Excepcion HTTPError
             (str_nat (status_code r) @ '' Client Error: '' @ reason r @ '' for url: '' @ url r))
      else if 500 \<le> status_code r \<and> status_code r < 600
      then Some (Excepcion HTTPError
             (str_nat (status_code r) @ '' Server Error: '' @ reason r @ '' for url: '' @ url r))
      else None)"

definition json_de :: "respuesta_http \<Rightarrow> excepcion + json" where
  "json_de r =
     (case cuerpo r of
        Inl m \<Rightarrow> Inl (Excepcion JSONDecodeError m)
      | Inr j \<Rightarrow> Inr j)"

text \<open>The body of the \<open>try\<close> block of \<open>generar_respuesta\<close>.\<close>

definition intento :: "envio \<Rightarrow> excepcion + json" where
  "intento env =
     (case env of
        Lanza e \<Rightarrow> Inl e
      | Recibe r \<Rightarrow>
          (case raise_for_status r of
             Some e \<Rightarrow> Inl e
           | None \<Rightarrow> json_de r))"

text \<open>The synthetic reply of the two handlers, in the shape of a successful one.\<close>

definition sintetica :: "string \<Rightarrow> json" where
  "sintetica texto =
     JObj [(''choices'', JArr [JObj [(''message'', JObj [(''content'', JStr texto)])]])]"

definition MENSAJE_TIMEOUT :: string where
  "MENSAJE_TIMEOUT = ''Error: Tiempo de espera excedido al consultar el modelo remoto.''"

text \<open>\<open>ModeloRemoto.generar_respuesta\<close>. The handler of \<open>Timeout\<close> comes first; an
  exception of neither class leaves the method. The requests sent are recorded.\<close>

definition generar_respuesta ::
  "transporte \<Rightarrow> ModeloRemoto \<Rightarrow> mensaje list \<Rightarrow> rat \<Rightarrow> rat \<Rightarrow> int \<Rightarrow>
   (string \<times> carga) list \<Rightarrow> (excepcion + json) \<times> (string \<times> carga) list" where
  "generar_respuesta red modelo mensajes temperatura top_p' max_tokens' enviadas =
     (let c = \<lparr>model = nombre_modelo modelo, messages = mensajes,
                temperature = temperatura, top_p = top_p', max_tokens = max_tokens'\<rparr>;
          destino = url_base modelo @ ''/chat/completions'';
          enviadas' = enviadas @ [(destino, c)]
      in case intento (red enviadas destino c) of
           Inr j \<Rightarrow> (Inr j, enviadas')
         | Inl e \<Rightarrow>
             if es_Timeout (clase_de e) then (Inr (sintetica MENSAJE_TIMEOUT), enviadas')
             else if es_RequestException (clase_de e)
             then (Inr (sintetica (''Error al consultar el modelo remoto: '' @ mensaje_de e)),
                   enviadas')
             else (Inl e, enviadas'))"

section \<open>Schema Describer\<close>

text \<open>What the two catalogue queries return on the connection: the table names of
  \<open>information_schema.tables\<close>, in the order given, and for a table name the
  (column, type) pairs of \<open>information_schema.columns\<close> with that table name.\<close>

record catalogo =
  tablas :: "string list"
  columnas :: "string \<Rightarrow> (string \<times> string) list"

text \<open>\<open>obtener_descripcion_esquema\<close>: the two nested loops appending to
  \<open>descripcion\<close>.\<close>

definition agregar_columna :: "string \<times> string \<Rightarrow> string \<Rightarrow> string" where
  "agregar_columna par descripcion =
     (case par of (columna, tipo_dato) \<Rightarrow>
        descripcion @ ''  - '' @ columna @ '' ('' @ tipo_dato @ '')\<newline>'')"

definition agregar_tabla :: "catalogo \<Rightarrow> string \<Rightarrow> string \<Rightarrow> string" where
  "agregar_tabla cat tabla descripcion =
     fold agregar_columna (columnas cat tabla)
       (descripcion @ ''Tabla: '' @ tabla @ ''\<newline>Columnas:\<newline>'') @ ''\<newline>''"

definition obtener_descripcion_esquema :: "catalogo \<Rightarrow> string \<Rightarrow> string" where
  "obtener_descripcion_esquema cat base_datos =
     fold (agregar_tabla cat) (tablas cat) (''Esquema de '' @ base_datos @ '':\<newline>'')"

section \<open>SQL Synthesizer\<close>

definition mensajes_sql :: "string \<Rightarrow> string \<Rightarrow> mensaje list" where
  "mensajes_sql esquema pregunta =
     [\<lparr>role = ''system'', content = ''You are an expert in SQL and MySQL.''\<rparr>,
      \<lparr>role = ''user'',
       content = ''Given the following schema:\<newline>'' @ esquema @ ''\<newline>\<newline>''
         @ ''Generate an SQL query to answer the question: '' @ pregunta @ ''. ''
         @ ''Use only the available tables and columns and return only the query, without any formatting.''\<rparr>]"

text \<open>\<open>generar_sql\<close>; only a \<open>str\<close> has the method \<open>strip\<close>.\<close>

definition generar_sql ::
  "transporte \<Rightarrow> string \<Rightarrow> string \<Rightarrow> ModeloRemoto \<Rightarrow>
   (string \<times> carga) list \<Rightarrow> (excepcion + string) \<times> (string \<times> carga) list" where
  "generar_sql red esquema pregunta modelo enviadas =
     (case generar_respuesta red modelo (mensajes_sql esquema pregunta) (1 / 10) (9 / 10) 4096
             enviadas of
        (Inl e, enviadas') \<Rightarrow> (Inl e, enviadas')
      | (Inr respuesta, enviadas') \<Rightarrow>
          (case contenido respuesta of
             Inl e \<Rightarrow> (Inl e, enviadas')
           | Inr c \<Rightarrow>
               (case c of
                  JStr texto \<Rightarrow> (Inr (quitar_cercas texto), enviadas')
                | _ \<Rightarrow> (Inl (Excepcion AttributeError ''object has no attribute strip''),
                        enviadas'))))"

section \<open>Query Executor\<close>

text \<open>
  The connection: whether it is open, whether the result set of the last statement is
  still unread, and the statements passed to \<open>cursor.execute\<close> on it so far.
  \<open>conexion.cursor()\<close> raises \<open>InternalError\<close> while a result set is unread and
  \<open>OperationalError\<close> on a connection that is not open.

  The database server is a parameter: for the statements executed before and the statement
  executed now, \<open>cursor.execute\<close> raises, or it succeeds. When it succeeds the answer
  says whether the statement leaves a result set to be read, and what
  \<open>cursor.fetchall\<close> does if it is called: it raises, or it returns the rows (or
  \<open>None\<close>). A result set stays unread until \<open>fetchall\<close> has returned it.
\<close>

record conexion =
  abierta :: bool
  sin_leer :: bool
  ejecutadas :: "string list"

datatype lectura = LecturaFalla string | LecturaDevuelve "pyval list option"

datatype respuesta_bd =
    FallaEjecucion string
  | Ejecutada bool lectura

type_synonym servidor = "string list \<Rightarrow> string \<Rightarrow> respuesta_bd"

definition SIN_RESULTADOS :: string where
  "SIN_RESULTADOS = ''No se encontraron resultados.''"

definition DEBE_SER_SELECT :: string where
  "DEBE_SER_SELECT = ''La consulta SQL debe ser un SELECT.''"

definition error_sql :: "string \<Rightarrow> pyval list" where
  "error_sql e = [PStr (''Error al ejecutar la consulta SQL: '' @ e)]"

text \<open>\<open>conexion.cursor()\<close>: the exception it raises, if any.\<close>

definition cursor :: "conexion \<Rightarrow> excepcion option" where
  "cursor con =
     (if sin_leer con then Some (Excepcion InternalError ''Unread result found'')
      else if \<not> abierta con
      then Some (Excepcion OperationalError ''MySQL Connection not available.'')
      else None)"

text \<open>\<open>ejecutar_sql\<close>. The cursor is made before the \<open>try\<close>, so what \<open>cursor()\<close>
  raises leaves the function. Inside the \<open>try\<close> the statement is executed first and the
  test on its first word comes after; on the rejection path \<open>fetchall\<close> is not called,
  and a result set of the statement stays unread on the connection.\<close>

definition ejecutar_sql ::
  "servidor \<Rightarrow> conexion \<Rightarrow> string \<Rightarrow> (excepcion + pyval list) \<times> conexion" where
  "ejecutar_sql bd con consulta =
     (case cursor con of
        Some x \<Rightarrow> (Inl x, con)
      | None \<Rightarrow>
        (let con' = con\<lparr>ejecutadas := ejecutadas con @ [consulta]\<rparr> in
         case bd (ejecutadas con) consulta of
           FallaEjecucion e \<Rightarrow> (Inr (error_sql e), con')
         | Ejecutada pendiente lect \<Rightarrow>
             if startswith (lower (strip consulta)) ''select''
             then (case lect of
                     LecturaFalla e \<Rightarrow> (Inr (error_sql e), con'\<lparr>sin_leer := pendiente\<rparr>)
                   | LecturaDevuelve resultado \<Rightarrow>
                       (case resultado of
                          None \<Rightarrow> (Inr [PStr SIN_RESULTADOS], con')
                        | Some filas \<Rightarrow>
                            if length filas = 0 then (Inr [PStr SIN_RESULTADOS], con')
                            else (Inr filas, con')))
             else (Inr [PStr DEBE_SER_SELECT], con'\<lparr>sin_leer := pendiente\<rparr>)))"

section \<open>Answer Synthesizer\<close>

definition mensajes_respuesta :: "string \<Rightarrow> pyval \<Rightarrow> mensaje list" where
  "mensajes_respuesta pregunta resultado =
     [\<lparr>role = ''system'',
       content = ''Responde en espa'' @ [CHR 0xF1] @ ''ol usando solo la informaci''
         @ [CHR 0xF3] @ ''n de '' @ [CHR 0x27] @ ''Datos'' @ [CHR 0x27] @ '' y ''
         @ [CHR 0x27] @ ''Pregunta'' @ [CHR 0x27] @ ''. ''
         @ ''No menciones SQL ni tablas. S'' @ [CHR 0xE9] @ '' claro y conciso. Sin Markdown.''\<rparr>,
      \<lparr>role = ''user'',
       content = ''Pregunta: '' @ pregunta @ ''\<newline>Datos: '' @ py_str resultado\<rparr>]"

text \<open>\<open>re.sub\<close> accepts only a \<open>str\<close>.\<close>

definition limpiar_json :: "json \<Rightarrow> excepcion + string" where
  "limpiar_json j =
     (case j of
        JStr t \<Rightarrow> Inr (limpiar_markdown t)
      | _ \<Rightarrow> Inl (Excepcion TypeError ''expected string or bytes-like object''))"

definition generar_respuesta_natural ::
  "transporte \<Rightarrow> string \<Rightarrow> pyval \<Rightarrow> ModeloRemoto \<Rightarrow>
   (string \<times> carga) list \<Rightarrow> (excepcion + string) \<times> (string \<times> carga) list" where
  "generar_respuesta_natural red pregunta resultado modelo enviadas =
     (case generar_respuesta red modelo (mensajes_respuesta pregunta resultado) (3 / 10) (9 / 10)
             4096 enviadas of
        (Inl e, enviadas') \<Rightarrow> (Inl e, enviadas')
      | (Inr respuesta, enviadas') \<Rightarrow>
          (case contenido respuesta of
             Inl e \<Rightarrow> (Inl e, enviadas')
           | Inr c \<Rightarrow> (limpiar_json c, enviadas')))"

section \<open>Orchestration loop\<close>

text \<open>
  The state of the session: the lines still to be read from the input, the texts written
  to the output (the prompt of \<open>input\<close> and each \<open>print\<close> with its newline), the
  requests sent to the model, and the connection.
\<close>

record estado =
  entradas :: "string list"
  salida :: "string list"
  peticiones :: "(string \<times> carga) list"
  con_bd :: conexion

datatype paso =
    is_Sigue: Sigue (estado_de: estado)
  | is_Termina: Termina (estado_de: estado)
  | is_Falla: Falla (excepcion_de: excepcion) (estado_de: estado)

definition escribir :: "string \<Rightarrow> estado \<Rightarrow> estado" where
  "escribir t e = e\<lparr>salida := salida e @ [t]\<rparr>"

definition imprimir :: "string \<Rightarrow> estado \<Rightarrow> estado" where
  "imprimir t e = escribir (t @ ''\<newline>'') e"

definition INDICACION :: string where
  "INDICACION = ''Introduce tu pregunta (o '' @ [CHR 0x27] @ ''exit'' @ [CHR 0x27] @ ''): ''"

definition PREGUNTA_VACIA :: string where
  "PREGUNTA_VACIA = ''Pregunta vac'' @ [CHR 0xED] @ ''a.''"

text \<open>One turn of the \<open>while True\<close> loop of \<open>main\<close>. \<open>input\<close> at the end of the
  input raises \<open>EOFError\<close>.\<close>

definition ciclo ::
  "transporte \<Rightarrow> servidor \<Rightarrow> string \<Rightarrow> ModeloRemoto \<Rightarrow> estado \<Rightarrow> paso" where
  "ciclo red bd esquema modelo e =
     (let e0 = escribir INDICACION e in
      case entradas e0 of
        [] \<Rightarrow> Falla (Excepcion EOFError ''EOF when reading a line'') e0
      | linea_leida # resto \<Rightarrow>
          (let e1 = e0\<lparr>entradas := resto\<rparr>; pregunta = strip linea_leida in
           if lower pregunta = ''exit'' then Termina e1
           else if pregunta = [] then Sigue (imprimir PREGUNTA_VACIA e1)
           else
             (case generar_sql red esquema pregunta modelo (peticiones e1) of
                (Inl x, ps) \<Rightarrow> Falla x (e1\<lparr>peticiones := ps\<rparr>)
              | (Inr sql, ps) \<Rightarrow>
                  (let e2 = e1\<lparr>peticiones := ps\<rparr> in
                   if sql = [] then Sigue e2
                   else
                     (let e3 = imprimir (''\<newline>SQL Generado:\<newline>'' @ sql @ ''\<newline>'') e2 in
                      case ejecutar_sql bd (con_bd e3) sql of
                        (Inl x, c) \<Rightarrow> Falla x (e3\<lparr>con_bd := c\<rparr>)
                      | (Inr filas, c) \<Rightarrow>
                          (let resultado = formatear_resultado filas;
                               e4 = imprimir (''Resultado:\<newline>'' @ py_str resultado @ ''\<newline>'')
                                      (e3\<lparr>con_bd := c\<rparr>)
                           in case generar_respuesta_natural red pregunta resultado modelo
                                     (peticiones e4) of
                                (Inl x, ps') \<Rightarrow> Falla x (e4\<lparr>peticiones := ps'\<rparr>)
                              | (Inr respuesta, ps') \<Rightarrow>
                                  Sigue (imprimir (''Respuesta:\<newline>'' @ respuesta @ ''\<newline>'')
                                           (e4\<lparr>peticiones := ps'\<rparr>))))))))"

section \<open>Example environments\<close>

text \<open>A database server with a table \<open>users\<close> of 42 rows: the count is 42 until a
  \<open>DELETE\<close> has been executed on the connection, and 0 afterwards; no row has a
  negative \<open>id\<close>; \<open>SHOW TABLES;\<close> lists the one table; any other statement is a
  syntax error.\<close>

definition bd_usuarios :: servidor where
  "bd_usuarios previas consulta =
     (if consulta = ''DELETE FROM users;'' then Ejecutada False (LecturaDevuelve None)
      else if consulta = ''SELECT COUNT(*) FROM users;''
      then Ejecutada True (LecturaDevuelve
             (Some [PTuple [SInt (if ''DELETE FROM users;'' \<in> set previas then 0 else 42)]]))
      else if consulta = ''select id from users where id < 0''
      then Ejecutada True (LecturaDevuelve (Some []))
      else if consulta = ''SHOW TABLES;''
      then Ejecutada True (LecturaDevuelve (Some [PTuple [SStr ''users'']]))
      else FallaEjecucion ''1064 (42000): You have an error in your SQL syntax'')"

definition con_inicial :: conexion where
  "con_inicial = \<lparr>abierta = True, sin_leer = False, ejecutadas = []\<rparr>"

text \<open>The model of \<open>main\<close>, a transport whose requests all time out, and one whose
  replies all have status 500 and a body that is not JSON.\<close>

definition modelo_remoto :: ModeloRemoto where
  "modelo_remoto = ModeloRemoto_init URL_BASE_LM NOMBRE_MODELO"



text \<open>A session on a database with the table \<open>users\<close>: the question to be read, a
  transport whose model answers the first request with a fenced query and the later ones
  with a sentence, and a transport whose model always answers with an empty text.\<close>

definition esquema_usuarios :: string where
  "esquema_usuarios =
     obtener_descripcion_esquema
       \<lparr>tablas = [''users''],
        columnas = (\<lambda>t. if t = ''users'' then [(''id'', ''int''), (''name'', ''varchar'')] else [])\<rparr>
       ''tienda''"

definition red_feliz :: transporte where
  "red_feliz enviadas destino c =
     Recibe \<lparr>status_code = 200, reason = ''OK'', url = destino,
             cuerpo = Inr (sintetica
               (case enviadas of
                  [] \<Rightarrow> ''```sql\<newline>SELECT COUNT(*) FROM users;\<newline>```''
                | _ \<Rightarrow> ''Hay **42** usuarios.''))\<rparr>"

definition red_muda :: transporte where
  "red_muda enviadas destino c =
     Recibe \<lparr>status_code = 200, reason = ''OK'', url = destino, cuerpo = Inr (sintetica '''')\<rparr>"

definition estado_inicial :: estado where
  "estado_inicial =
     \<lparr>entradas = [''How many users are there?''], salida = [], peticiones = [],
      con_bd = con_inicial\<rparr>"

section \<open>Properties\<close>

subsection \<open>Result Formatter\<close>

text \<open>
  C10: for the empty result sequence, \<open>formatear_resultado\<close> returns the empty string:
  the numbered-list branch joins no line.
\<close>

theorem formatear_resultado_vacio: "formatear_resultado [] = PStr ''''"
  by (simp add: formatear_resultado_def)

text \<open>
  C2, at the one-row result \<open>[(42,)]\<close>: \<open>formatear_resultado\<close> returns the row itself,
  the tuple \<open>(42,)\<close>, which is not the string \<open>42\<close> and which an f-string renders as
  \<open>(42,)\<close>. Two rows of the same shape go through \<open>str\<close> and \<open>join\<close> and give
  the lines \<open>1. 42\<close> and \<open>2. 7\<close>.
\<close>

theorem formatear_resultado_una_fila:
  "formatear_resultado [PTuple [SInt 42]] = PTuple [SInt 42]
   \<and> formatear_resultado [PTuple [SInt 42]] \<noteq> PStr ''42''
   \<and> py_str (formatear_resultado [PTuple [SInt 42]]) = ''(42,)''
   \<and> formatear_resultado [PTuple [SInt 42], PTuple [SInt 7]] = PStr ''1. 42\<newline>2. 7''"
  by code_simp

subsection \<open>Query Executor\<close>

text \<open>
  C1, at the statement \<open>DELETE FROM users;\<close> on an open connection to a server whose
  table \<open>users\<close> has 42 rows: \<open>ejecutar_sql\<close> returns the rejection message, and the
  statement has been passed to \<open>cursor.execute\<close>; a count on the same connection gives
  0 afterwards, where it gave 42 before.
\<close>

theorem ejecutar_sql_delete_ejecutado:
  "ejecutar_sql bd_usuarios con_inicial ''DELETE FROM users;''
     = (Inr [PStr DEBE_SER_SELECT],
        \<lparr>abierta = True, sin_leer = False, ejecutadas = [''DELETE FROM users;'']\<rparr>)
   \<and> fst (ejecutar_sql bd_usuarios con_inicial ''SELECT COUNT(*) FROM users;'')
     = Inr [PTuple [SInt 42]]
   \<and> fst (ejecutar_sql bd_usuarios
            (snd (ejecutar_sql bd_usuarios con_inicial ''DELETE FROM users;''))
            ''SELECT COUNT(*) FROM users;'')
     = Inr [PTuple [SInt 0]]"
  by code_simp

text \<open>
  On a connection on which \<open>cursor()\<close> succeeds, for a statement whose trimmed,
  lower-cased text starts with \<open>select\<close>, \<open>ejecutar_sql\<close> returns the "no results"
  message when the statement yields no row (or \<open>None\<close>), the rows as they are when there
  is at least one, and the one-element sequence with the error message, behind its fixed
  prefix, when executing or fetching raises; in each case it returns and raises nothing.
\<close>

lemma ejecutar_sql_select_con_cursor:
  assumes cur: "cursor con = None"
    and sel: "startswith (lower (strip consulta)) ''select''"
  shows "(\<forall>p. bd (ejecutadas con) consulta = Ejecutada p (LecturaDevuelve None)
              \<or> bd (ejecutadas con) consulta = Ejecutada p (LecturaDevuelve (Some []))
            \<longrightarrow> fst (ejecutar_sql bd con consulta) = Inr [PStr SIN_RESULTADOS])
       \<and> (\<forall>p filas. bd (ejecutadas con) consulta = Ejecutada p (LecturaDevuelve (Some filas))
                \<and> filas \<noteq> []
            \<longrightarrow> fst (ejecutar_sql bd con consulta) = Inr filas)
       \<and> (\<forall>p m. bd (ejecutadas con) consulta = FallaEjecucion m
                \<or> bd (ejecutadas con) consulta = Ejecutada p (LecturaFalla m)
            \<longrightarrow> fst (ejecutar_sql bd con consulta)
                  = Inr [PStr (''Error al ejecutar la consulta SQL: '' @ m)])
       \<and> (\<exists>r. fst (ejecutar_sql bd con consulta) = Inr r)"
  using cur sel
  by (auto simp: ejecutar_sql_def Let_def error_sql_def
           split: respuesta_bd.splits lectura.splits option.splits)

text \<open>
  C6, at the statement \<open>SELECT COUNT(*) FROM users;\<close>, which passes the test on its first
  word, on the open connection on which \<open>ejecutar_sql\<close> has just rejected
  \<open>SHOW TABLES;\<close>: the rejected statement was executed and its rows were never
  fetched, so \<open>conexion.cursor()\<close>, which stands before the \<open>try\<close>, raises
  \<open>InternalError\<close>, and the exception leaves \<open>ejecutar_sql\<close> instead of being returned
  as a message. On a connection that is not open the same statement leaves
  \<open>ejecutar_sql\<close> with \<open>OperationalError\<close>.
\<close>

theorem ejecutar_sql_select_propaga:
  "startswith (lower (strip ''SELECT COUNT(*) FROM users;'')) ''select''
   \<and> ejecutar_sql bd_usuarios con_inicial ''SHOW TABLES;''
       = (Inr [PStr DEBE_SER_SELECT],
          \<lparr>abierta = True, sin_leer = True, ejecutadas = [''SHOW TABLES;'']\<rparr>)
   \<and> fst (ejecutar_sql bd_usuarios
            (snd (ejecutar_sql bd_usuarios con_inicial ''SHOW TABLES;''))
            ''SELECT COUNT(*) FROM users;'')
       = Inl (Excepcion InternalError ''Unread result found'')
   \<and> fst (ejecutar_sql bd_usuarios (con_inicial\<lparr>abierta := False\<rparr>)
            ''SELECT COUNT(*) FROM users;'')
       = Inl (Excepcion OperationalError ''MySQL Connection not available.'')"
  by code_simp

subsection \<open>Chat Client\<close>





subsection \<open>Schema Describer\<close>

lemma fold_agregar_columna:
  "fold agregar_columna cols d
     = d @ concat (map (\<lambda>(c, ty). ''  - '' @ c @ '' ('' @ ty @ '')\<newline>'') cols)"
  by (induction cols arbitrary: d) (auto simp: agregar_columna_def)

lemma fold_agregar_tabla:
  "fold (agregar_tabla cat) ts d
     = d @ concat (map (\<lambda>t. ''Tabla: '' @ t @ ''\<newline>Columnas:\<newline>''
             @ concat (map (\<lambda>(c, ty). ''  - '' @ c @ '' ('' @ ty @ '')\<newline>'') (columnas cat t))
             @ ''\<newline>'') ts)"
  by (induction ts arbitrary: d) (auto simp: agregar_tabla_def fold_agregar_columna)

text \<open>
  C8: the description is the header line \<open>Esquema de <database>:\<close>, then for each table,
  in the order of the catalogue, the sub-header (the line \<open>Tabla: <table>\<close> and the line
  \<open>Columnas:\<close>), one line \<open>  - <name> (<type>)\<close> per column, and an empty line, which
  separates the table from the next one.
\<close>

theorem obtener_descripcion_esquema_formato:
  "obtener_descripcion_esquema cat base_datos
     = ''Esquema de '' @ base_datos @ '':\<newline>''
       @ concat (map (\<lambda>t. ''Tabla: '' @ t @ ''\<newline>Columnas:\<newline>''
             @ concat (map (\<lambda>(c, ty). ''  - '' @ c @ '' ('' @ ty @ '')\<newline>'') (columnas cat t))
             @ ''\<newline>'') (tablas cat))"
  by (simp add: obtener_descripcion_esquema_def fold_agregar_tabla)

text \<open>
  C9: for one catalogue and two database names, each description starts with its own
  header line, and what follows the header line is the same text in both: the tables and
  columns listed do not depend on the name.
\<close>

theorem obtener_descripcion_esquema_solo_encabezado:
  "take (length (''Esquema de '' @ d1 @ '':\<newline>'')) (obtener_descripcion_esquema cat d1)
     = ''Esquema de '' @ d1 @ '':\<newline>''
   \<and> take (length (''Esquema de '' @ d2 @ '':\<newline>'')) (obtener_descripcion_esquema cat d2)
     = ''Esquema de '' @ d2 @ '':\<newline>''
   \<and> drop (length (''Esquema de '' @ d1 @ '':\<newline>'')) (obtener_descripcion_esquema cat d1)
     = drop (length (''Esquema de '' @ d2 @ '':\<newline>'')) (obtener_descripcion_esquema cat d2)"
  by (simp add: obtener_descripcion_esquema_def fold_agregar_tabla)

subsection \<open>Markdown cleanup\<close>

lemma sub_delim_sin_marca:
  "d \<noteq> [] \<Longrightarrow> hd d \<notin> set s \<Longrightarrow> sub_delim d s = s"
proof (induction s)
  case Nil
  then show ?case by simp
next
  case (Cons c cs)
  from Cons.prems have "\<not> startswith (c # cs) d" by (cases d) auto
  then have "match_delim d (c # cs) = None" by (simp add: match_delim_def)
  with Cons show ?case by simp
qed

lemma lstrip_rstrip:
  assumes "x = [] \<or> \<not> isspace (hd x)"
  shows "lstrip (rstrip x) = rstrip x"
proof (cases x)
  case Nil
  then show ?thesis by (simp add: lstrip_def rstrip_def)
next
  case (Cons a as)
  with assms have a: "\<not> isspace a" by simp
  have "dropWhile isspace (rev as @ [a]) = dropWhile isspace (rev as) @ [a]
      \<or> dropWhile isspace (rev as @ [a]) = [a]"
    using a by (simp add: dropWhile_append)
  then obtain ys where "dropWhile isspace (rev x) = ys @ [a]"
    using Cons by auto
  then have "rstrip x = a # rev ys" by (simp add: rstrip_def)
  with a show ?thesis by (simp add: lstrip_def)
qed

lemma rstrip_idem: "rstrip (rstrip x) = rstrip x"
  by (simp add: rstrip_def)

lemma lstrip_head: "lstrip x = [] \<or> \<not> isspace (hd (lstrip x))"
  using hd_dropWhile [of isspace x] by (auto simp: lstrip_def)

lemma strip_idem: "strip (strip x) = strip x"
  using lstrip_rstrip [OF lstrip_head [of x]] by (simp add: strip_def rstrip_idem)

text \<open>
  C4 as stated fails: on \<open>****a****\<close> the cleanup gives \<open>*a*\<close>, and the cleanup of
  \<open>*a*\<close> is \<open>a\<close>.
\<close>

theorem limpiar_markdown_no_idempotente:
  "limpiar_markdown ''****a****'' = ''*a*''
   \<and> limpiar_markdown (limpiar_markdown ''****a****'') = ''a''
   \<and> limpiar_markdown (limpiar_markdown ''****a****'') \<noteq> limpiar_markdown ''****a****''"
  by code_simp

text \<open>
  C4, amended: when the result of the cleanup holds none of the marker characters
  (asterisk, underscore, backtick), a second cleanup leaves it as it is.
\<close>

theorem limpiar_markdown_punto_fijo:
  assumes "CHR ''*'' \<notin> set (limpiar_markdown t)"
    and "CHR ''_'' \<notin> set (limpiar_markdown t)"
    and "CHR ''`'' \<notin> set (limpiar_markdown t)"
  shows "limpiar_markdown (limpiar_markdown t) = limpiar_markdown t"
proof -
  let ?u = "limpiar_markdown t"
  have "fold sub_delim patrones ?u = ?u"
    using assms by (simp add: patrones_def sub_delim_sin_marca)
  then have "limpiar_markdown ?u = strip ?u" by (simp add: limpiar_markdown_def)
  also have "\<dots> = ?u" by (simp add: limpiar_markdown_def strip_idem)
  finally show ?thesis .
qed

theorem limpiar_markdown_punto_fijo_witness:
  "limpiar_markdown ''  **hola** _mundo_ '' = ''hola mundo''
   \<and> limpiar_markdown (limpiar_markdown ''  **hola** _mundo_ '')
       = limpiar_markdown ''  **hola** _mundo_ ''"
proof -
  have v: "limpiar_markdown ''  **hola** _mundo_ '' = ''hola mundo''" by code_simp
  have "CHR ''*'' \<notin> set (limpiar_markdown ''  **hola** _mundo_ '')"
    "CHR ''_'' \<notin> set (limpiar_markdown ''  **hola** _mundo_ '')"
    "CHR ''`'' \<notin> set (limpiar_markdown ''  **hola** _mundo_ '')"
    unfolding v by simp_all
  from limpiar_markdown_punto_fijo [OF this] v show ?thesis by simp
qed

subsection \<open>Code fences\<close>

lemma not_space_backtick: "\<not> isspace CHR ''`''"
  by (simp add: isspace_def)

lemma startswith_length: "startswith s p \<Longrightarrow> length p \<le> length s"
  by (induction s p rule: startswith.induct) auto

lemma startswith_append: "startswith s p \<Longrightarrow> startswith (s @ y) p"
  by (induction s p rule: startswith.induct) auto

lemma startswith_append_iff:
  "w \<notin> set p \<Longrightarrow> startswith (s @ w # ys) p \<longleftrightarrow> startswith s p"
  by (induction s p rule: startswith.induct) auto

lemma startswith_self: "startswith s s"
  by (induction s) auto

lemma dropWhile_space_append:
  "s \<noteq> [] \<Longrightarrow> \<not> isspace (last s) \<Longrightarrow> dropWhile isspace (s @ y) = dropWhile isspace s @ y"
  by (rule dropWhile_append1 [of "last s"]) auto

lemma dropWhile_space_last:
  "s \<noteq> [] \<Longrightarrow> \<not> isspace (last s) \<Longrightarrow>
     dropWhile isspace s \<noteq> [] \<and> last (dropWhile isspace s) = last s"
  by (induction s) (auto split: if_splits)

lemma dropWhile_all_space:
  "\<forall>c\<in>set w. isspace c \<Longrightarrow> dropWhile isspace (w @ fence @ y) = fence @ y"
  by (induction w) (auto simp: fence_def not_space_backtick)

lemma sub_fence_fence: "sub_fence fence = []"
  by (simp add: fence_def match_fence_def not_space_backtick)

lemma sub_fence_space_fence:
  assumes "\<forall>c\<in>set w. isspace c"
  shows "sub_fence (w @ fence) = []"
proof (cases w)
  case Nil
  then show ?thesis by (simp add: sub_fence_fence)
next
  case (Cons a as)
  with assms have a: "isspace a" by simp
  then have "a \<noteq> CHR ''`''" using not_space_backtick by auto
  then have "\<not> startswith (w @ fence) (fence @ ''sql'')"
    using Cons by (simp add: fence_def)
  moreover have "dropWhile isspace (w @ fence) = fence"
    using dropWhile_all_space [OF assms, of "[]"] by simp
  ultimately have "match_fence (w @ fence) = Some []"
    by (simp add: match_fence_def startswith_self fence_def)
  then show ?thesis using Cons by simp
qed


lemma not_space_in_fence_sql: "isspace a \<Longrightarrow> a \<notin> set (fence @ ''sql'')"
  by (auto simp: fence_def isspace_def)

lemma not_space_in_fence: "isspace a \<Longrightarrow> a \<notin> set fence"
  by (auto simp: fence_def isspace_def)

lemma last_drop: "n < length s \<Longrightarrow> last (drop n s) = last s"
  by simp

lemma sub_fence_closing:
  assumes w: "\<forall>c\<in>set w. isspace c" and wne: "w \<noteq> []"
  shows "s = [] \<or> \<not> isspace (last s) \<Longrightarrow> sub_fence (s @ w @ fence) = sub_fence s"
proof (induction s rule: sub_fence.induct)
  case 1
  show ?case using sub_fence_space_fence [OF w] by simp
next
  case (2 c cs)
  let ?s = "c # cs"
  from wne obtain a as where was: "w = a # as" by (cases w) auto
  with w have a: "isspace a" by simp
  from "2.prems" have last: "\<not> isspace (last ?s)" by simp
  have sw1: "startswith (?s @ w @ fence) (fence @ ''sql'') \<longleftrightarrow> startswith ?s (fence @ ''sql'')"
    using startswith_append_iff [OF not_space_in_fence_sql [OF a], of ?s "as @ fence"] was
    by simp
  have dw: "dropWhile isspace (?s @ w @ fence) = dropWhile isspace ?s @ w @ fence"
    using dropWhile_space_append [of ?s] last by simp
  have sw2: "startswith (dropWhile isspace ?s @ w @ fence) fence
               \<longleftrightarrow> startswith (dropWhile isspace ?s) fence"
    using startswith_append_iff [OF not_space_in_fence [OF a], of "dropWhile isspace ?s" "as @ fence"] was
    by simp
  show ?case
  proof (cases "match_fence ?s")
    case None
    then have n1: "\<not> startswith ?s (fence @ ''sql'')"
      and n2: "\<not> startswith (dropWhile isspace ?s) fence"
      by (auto simp: match_fence_def Let_def split: if_splits)
    have "match_fence (?s @ w @ fence) = None"
      unfolding match_fence_def Let_def using n1 n2 sw1 sw2 dw by simp
    moreover have "cs = [] \<or> \<not> isspace (last cs)" using last by (auto split: if_splits)
    ultimately show ?thesis using None "2.IH" by simp
  next
    case (Some r)
    show ?thesis
    proof (cases "startswith ?s (fence @ ''sql'')")
      case True
      then have len: "6 \<le> length ?s" using startswith_length [OF True] by (simp add: fence_def)
      from True Some have r: "r = dropWhile isspace (drop 6 ?s)"
        by (simp add: match_fence_def)
      have m: "match_fence (?s @ w @ fence) = Some (dropWhile isspace (drop 6 ?s @ w @ fence))"
        unfolding match_fence_def using True sw1 len by simp
      show ?thesis
      proof (cases "drop 6 ?s = []")
        case True
        with r have "r = []" by simp
        moreover have "sub_fence (dropWhile isspace (w @ fence)) = []"
          using dropWhile_all_space [OF w, of "[]"] sub_fence_fence by simp
        ultimately show ?thesis using m Some True by simp
      next
        case False
        then have "last (drop 6 ?s) = last ?s" by (intro last_drop) simp
        with last have l6: "\<not> isspace (last (drop 6 ?s))" by simp
        from dropWhile_space_last [OF False l6] r
        have rne: "r \<noteq> []" and rl: "\<not> isspace (last r)" using l6 by auto
        have "dropWhile isspace (drop 6 ?s @ w @ fence) = r @ w @ fence"
          using dropWhile_space_append [OF False l6] r by simp
        with m have "sub_fence (?s @ w @ fence) = sub_fence (r @ w @ fence)" by simp
        also have "\<dots> = sub_fence r" using "2.IH" Some rl by simp
        finally show ?thesis using Some by simp
      qed
    next
      case False
      with Some have t: "startswith (dropWhile isspace ?s) fence"
        and r: "r = drop 3 (dropWhile isspace ?s)"
        by (auto simp: match_fence_def Let_def split: if_splits)
      from startswith_length [OF t] have len: "3 \<le> length (dropWhile isspace ?s)"
        by (simp add: fence_def)
      have m: "match_fence (?s @ w @ fence) = Some (r @ w @ fence)"
        unfolding match_fence_def Let_def using False sw1 sw2 dw t r len by simp
      have "r = [] \<or> \<not> isspace (last r)"
      proof (cases "r = []")
        case True then show ?thesis by simp
      next
        case False
        with r have "3 < length (dropWhile isspace ?s)" by simp
        then have "last r = last (dropWhile isspace ?s)" using r by simp
        also have "\<dots> = last ?s" using dropWhile_space_last [of ?s] last by simp
        finally show ?thesis using last by simp
      qed
      with "2.IH" Some have "sub_fence (r @ w @ fence) = sub_fence r" by simp
      with m Some show ?thesis by simp
    qed
  qed
qed


lemma rstrip_decomp:
  "\<exists>w. x = rstrip x @ w \<and> (\<forall>c\<in>set w. isspace c)"
proof -
  have "x = rev (dropWhile isspace (rev x)) @ rev (takeWhile isspace (rev x))"
    by (metis rev_append rev_rev_ident takeWhile_dropWhile_id)
  moreover have "\<forall>c\<in>set (rev (takeWhile isspace (rev x))). isspace c"
    by (auto dest: set_takeWhileD)
  ultimately show ?thesis unfolding rstrip_def by blast
qed

lemma rstrip_last: "rstrip x = [] \<or> \<not> isspace (last (rstrip x))"
proof (cases "dropWhile isspace (rev x)")
  case Nil
  then show ?thesis by (simp add: rstrip_def)
next
  case (Cons a as)
  then have "\<not> isspace a" using hd_dropWhile [of isspace "rev x"] by auto
  with Cons show ?thesis by (simp add: rstrip_def)
qed

lemma strip_fenced:
  "strip (fence @ y @ fence) = fence @ y @ fence"
proof -
  have l: "lstrip (fence @ y @ fence) = fence @ y @ fence"
    by (simp add: lstrip_def fence_def not_space_backtick)
  have "rev (fence @ y @ fence) = fence @ rev y @ fence"
    by (simp add: fence_def)
  then have "dropWhile isspace (rev (fence @ y @ fence)) = rev (fence @ y @ fence)"
    by (simp add: fence_def not_space_backtick)
  then have "rstrip (fence @ y @ fence) = fence @ y @ fence"
    by (simp add: rstrip_def)
  with l show ?thesis by (simp add: strip_def)
qed

lemma quitar_cercas_envuelta:
  assumes w1: "\<forall>c\<in>set w1. isspace c" and w2: "\<forall>c\<in>set w2. isspace c" and ne: "w2 \<noteq> []"
  shows "quitar_cercas (fence @ ''sql'' @ w1 @ r @ w2 @ fence) = quitar_cercas r"
proof -
  obtain w where x: "lstrip r = strip r @ w" and w: "\<forall>c\<in>set w. isspace c"
    using rstrip_decomp [of "lstrip r"] by (auto simp: strip_def)
  have l: "strip r = [] \<or> \<not> isspace (last (strip r))"
    using rstrip_last [of "lstrip r"] by (simp add: strip_def)
  have ww: "\<forall>c\<in>set (w @ w2). isspace c" "w @ w2 \<noteq> []" using w w2 ne by auto
  have "strip (fence @ (''sql'' @ w1 @ r @ w2) @ fence) = fence @ (''sql'' @ w1 @ r @ w2) @ fence"
    by (rule strip_fenced)
  then have "quitar_cercas (fence @ ''sql'' @ w1 @ r @ w2 @ fence)
      = sub_fence (fence @ ''sql'' @ w1 @ r @ w2 @ fence)"
    by (simp add: quitar_cercas_def)
  also have "\<dots> = sub_fence (dropWhile isspace (w1 @ r @ w2 @ fence))"
    by (simp add: fence_def match_fence_def)
  also have "dropWhile isspace (w1 @ r @ w2 @ fence) = dropWhile isspace (r @ w2 @ fence)"
    using w1 by (induction w1) auto
  also have "sub_fence (dropWhile isspace (r @ w2 @ fence)) = sub_fence (strip r)"
  proof (cases "lstrip r = []")
    case True
    then have "\<forall>c\<in>set r. isspace c"
      by (simp add: lstrip_def dropWhile_eq_Nil_conv)
    with w2 have "\<forall>c\<in>set (r @ w2). isspace c" by auto
    from dropWhile_all_space [OF this, of "[]"]
    have "dropWhile isspace (r @ w2 @ fence) = fence" by simp
    moreover from True have "strip r = []" by (simp add: strip_def rstrip_def)
    ultimately show ?thesis by (simp add: sub_fence_fence)
  next
    case False
    then obtain a where a: "a \<in> set r" "\<not> isspace a"
      by (auto simp: lstrip_def dropWhile_eq_Nil_conv)
    then have "dropWhile isspace (r @ w2 @ fence) = lstrip r @ w2 @ fence"
      unfolding lstrip_def by (intro dropWhile_append1) auto
    also have "\<dots> = strip r @ (w @ w2) @ fence" using x by simp
    finally show ?thesis
      using sub_fence_closing [OF ww l] by simp
  qed
  finally show ?thesis by (simp add: quitar_cercas_def)
qed

text \<open>
  C5: for every reply \<open>r\<close>, the post-processing of \<open>generar_sql\<close> (\<open>strip\<close>, then
  the substitution of the fence markers) gives the same text on \<open>r\<close> put between the
  fence lines \<open>```sql\<close> and \<open>```\<close> as on \<open>r\<close> itself.
\<close>

theorem quitar_cercas_ida_y_vuelta:
  "quitar_cercas (''```sql\<newline>'' @ r @ ''\<newline>```'') = quitar_cercas r"
proof -
  have "quitar_cercas (fence @ ''sql'' @ ''\<newline>'' @ r @ ''\<newline>'' @ fence) = quitar_cercas r"
    by (rule quitar_cercas_envuelta) (simp_all add: isspace_def)
  then show ?thesis by (simp add: fence_def)
qed
subsection \<open>Orchestration loop\<close>

text \<open>
  C7 as stated fails: when the model's reply gives an empty query, the turn for a question
  that is neither blank nor the exit word ends after the first request to the model with
  nothing written but the prompt, nothing executed on the connection, and no second
  request for an answer.
\<close>

theorem ciclo_sql_vacio_sin_informe:
  "is_Sigue (ciclo red_muda bd_usuarios esquema_usuarios modelo_remoto estado_inicial)
   \<and> salida (estado_de (ciclo red_muda bd_usuarios esquema_usuarios modelo_remoto estado_inicial))
       = [INDICACION]
   \<and> ejecutadas (con_bd (estado_de
         (ciclo red_muda bd_usuarios esquema_usuarios modelo_remoto estado_inicial))) = []
   \<and> length (peticiones (estado_de
         (ciclo red_muda bd_usuarios esquema_usuarios modelo_remoto estado_inicial))) = 1"
  by code_simp

text \<open>
  C7, amended. A turn reads one line. If the trimmed line is the word \<open>exit\<close> in any
  letter case, the loop stops. If the trimmed line is empty, the turn writes
  the blank-question message and the loop goes on, with no request sent to the model. Otherwise
  the turn asks the model for the query and, when the query is not empty and no stage
  raises, executes it, formats the rows, asks the model for the answer, and writes the
  query, the formatted result and the answer, in this order.
\<close>

theorem ciclo_casos:
  assumes ent: "entradas e = l # resto"
  shows "(lower (strip l) = ''exit'' \<longrightarrow>
            ciclo red bd esquema modelo e
              = Termina (e\<lparr>salida := salida e @ [INDICACION], entradas := resto\<rparr>))
       \<and> (strip l = [] \<longrightarrow>
            ciclo red bd esquema modelo e
              = Sigue (e\<lparr>salida := salida e @ [INDICACION, PREGUNTA_VACIA @ ''\<newline>''],
                        entradas := resto\<rparr>))
       \<and> (\<forall>sql ps filas c respuesta ps'.
            lower (strip l) \<noteq> ''exit'' \<and> strip l \<noteq> []
            \<and> generar_sql red esquema (strip l) modelo (peticiones e) = (Inr sql, ps)
            \<and> sql \<noteq> []
            \<and> ejecutar_sql bd (con_bd e) sql = (Inr filas, c)
            \<and> generar_respuesta_natural red (strip l) (formatear_resultado filas) modelo ps
                = (Inr respuesta, ps')
            \<longrightarrow> ciclo red bd esquema modelo e
                  = Sigue \<lparr>entradas = resto,
                           salida = salida e @
                             [INDICACION,
                              ''\<newline>SQL Generado:\<newline>'' @ sql @ ''\<newline>\<newline>'',
                              ''Resultado:\<newline>'' @ py_str (formatear_resultado filas) @ ''\<newline>\<newline>'',
                              ''Respuesta:\<newline>'' @ respuesta @ ''\<newline>\<newline>''],
                           peticiones = ps', con_bd = c\<rparr>)"
proof (intro conjI impI allI)
  assume "lower (strip l) = ''exit''"
  with ent show "ciclo red bd esquema modelo e
              = Termina (e\<lparr>salida := salida e @ [INDICACION], entradas := resto\<rparr>)"
    by (simp add: ciclo_def escribir_def Let_def)
next
  assume "strip l = []"
  with ent show "ciclo red bd esquema modelo e
              = Sigue (e\<lparr>salida := salida e @ [INDICACION, PREGUNTA_VACIA @ ''\<newline>''],
                        entradas := resto\<rparr>)"
    by (simp add: ciclo_def escribir_def imprimir_def Let_def lower_def)
next
  fix sql ps filas c respuesta ps'
  assume h: "lower (strip l) \<noteq> ''exit'' \<and> strip l \<noteq> []
            \<and> generar_sql red esquema (strip l) modelo (peticiones e) = (Inr sql, ps)
            \<and> sql \<noteq> []
            \<and> ejecutar_sql bd (con_bd e) sql = (Inr filas, c)
            \<and> generar_respuesta_natural red (strip l) (formatear_resultado filas) modelo ps
                = (Inr respuesta, ps')"
  with ent show "ciclo red bd esquema modelo e
                  = Sigue \<lparr>entradas = resto,
                           salida = salida e @
                             [INDICACION,
                              ''\<newline>SQL Generado:\<newline>'' @ sql @ ''\<newline>\<newline>'',
                              ''Resultado:\<newline>'' @ py_str (formatear_resultado filas) @ ''\<newline>\<newline>'',
                              ''Respuesta:\<newline>'' @ respuesta @ ''\<newline>\<newline>''],
                           peticiones = ps', con_bd = c\<rparr>"
    by (simp add: ciclo_def escribir_def imprimir_def Let_def)
qed

theorem ciclo_casos_witness:
  "entradas estado_inicial = [''How many users are there?'']
   \<and> is_Sigue (ciclo red_feliz bd_usuarios esquema_usuarios modelo_remoto estado_inicial)
   \<and> salida (estado_de (ciclo red_feliz bd_usuarios esquema_usuarios modelo_remoto estado_inicial))
       = [INDICACION,
          ''\<newline>SQL Generado:\<newline>SELECT COUNT(*) FROM users;\<newline>\<newline>'',
          ''Resultado:\<newline>(42,)\<newline>\<newline>'',
          ''Respuesta:\<newline>Hay 42 usuarios.\<newline>\<newline>'']
   \<and> lower (strip ''  EXIT '') = ''exit''
   \<and> ciclo red_feliz bd_usuarios esquema_usuarios modelo_remoto
         (estado_inicial\<lparr>entradas := [''  EXIT '', ''otra'']\<rparr>)
       = Termina (estado_inicial\<lparr>entradas := [''otra''], salida := [INDICACION]\<rparr>)
   \<and> strip ''   '' = []
   \<and> ciclo red_feliz bd_usuarios esquema_usuarios modelo_remoto
         (estado_inicial\<lparr>entradas := [''   '', ''otra'']\<rparr>)
       = Sigue (estado_inicial\<lparr>entradas := [''otra''],
                                 salida := [INDICACION, PREGUNTA_VACIA @ ''\<newline>'']\<rparr>)"
proof -
  let ?l = "''How many users are there?''"
  let ?sql = "''SELECT COUNT(*) FROM users;''"
  let ?g = "generar_sql red_feliz esquema_usuarios (strip ?l) modelo_remoto (peticiones estado_inicial)"
  let ?x = "ejecutar_sql bd_usuarios (con_bd estado_inicial) ?sql"
  let ?n = "generar_respuesta_natural red_feliz (strip ?l) (formatear_resultado [PTuple [SInt 42]])
              modelo_remoto (snd ?g)"
  have ent: "entradas estado_inicial = ?l # []" by (simp add: estado_inicial_def)
  have q1: "lower (strip ?l) \<noteq> ''exit''" by code_simp
  have q2: "strip ?l \<noteq> []" by code_simp
  have g: "fst ?g = Inr ?sql" by code_simp
  have x: "fst ?x = Inr [PTuple [SInt 42]]" by code_simp
  have n: "fst ?n = Inr ''Hay 42 usuarios.''" by code_simp
  have r: "py_str (formatear_resultado [PTuple [SInt 42]]) = ''(42,)''" by code_simp
  have g': "?g = (Inr ?sql, snd ?g)" using g by (metis prod.collapse)
  have x': "?x = (Inr [PTuple [SInt 42]], snd ?x)" using x by (metis prod.collapse)
  have n': "?n = (Inr ''Hay 42 usuarios.'', snd ?n)" using n by (metis prod.collapse)
  from ciclo_casos [OF ent, of red_feliz bd_usuarios esquema_usuarios modelo_remoto] q1 q2 g' x' n'
  have "ciclo red_feliz bd_usuarios esquema_usuarios modelo_remoto estado_inicial
          = Sigue \<lparr>entradas = [],
                   salida = salida estado_inicial @
                     [INDICACION,
                      ''\<newline>SQL Generado:\<newline>'' @ ?sql @ ''\<newline>\<newline>'',
                      ''Resultado:\<newline>'' @ py_str (formatear_resultado [PTuple [SInt 42]])
                         @ ''\<newline>\<newline>'',
                      ''Respuesta:\<newline>'' @ ''Hay 42 usuarios.'' @ ''\<newline>\<newline>''],
                   peticiones = snd ?n, con_bd = snd ?x\<rparr>"
    by blast
  then have feliz: "is_Sigue (ciclo red_feliz bd_usuarios esquema_usuarios modelo_remoto estado_inicial)
      \<and> salida (estado_de (ciclo red_feliz bd_usuarios esquema_usuarios modelo_remoto estado_inicial))
       = [INDICACION,
          ''\<newline>SQL Generado:\<newline>SELECT COUNT(*) FROM users;\<newline>\<newline>'',
          ''Resultado:\<newline>(42,)\<newline>\<newline>'',
          ''Respuesta:\<newline>Hay 42 usuarios.\<newline>\<newline>'']"
    using r by (simp add: estado_inicial_def)
  have s1: "lower (strip ''  EXIT '') = ''exit''" by code_simp
  have e1: "entradas (estado_inicial\<lparr>entradas := [''  EXIT '', ''otra'']\<rparr>) = ''  EXIT '' # [''otra'']"
    by simp
  from ciclo_casos [OF e1, of red_feliz bd_usuarios esquema_usuarios modelo_remoto] s1
  have sale: "ciclo red_feliz bd_usuarios esquema_usuarios modelo_remoto
         (estado_inicial\<lparr>entradas := [''  EXIT '', ''otra'']\<rparr>)
       = Termina (estado_inicial\<lparr>entradas := [''otra''], salida := [INDICACION]\<rparr>)"
    by (simp add: estado_inicial_def)
  have s2: "strip ''   '' = []" by code_simp
  have e2: "entradas (estado_inicial\<lparr>entradas := [''   '', ''otra'']\<rparr>) = ''   '' # [''otra'']"
    by simp
  from ciclo_casos [OF e2, of red_feliz bd_usuarios esquema_usuarios modelo_remoto] s2
  have vacia: "ciclo red_feliz bd_usuarios esquema_usuarios modelo_remoto
         (estado_inicial\<lparr>entradas := [''   '', ''otra'']\<rparr>)
       = Sigue (estado_inicial\<lparr>entradas := [''otra''],
                                 salida := [INDICACION, PREGUNTA_VACIA @ ''\<newline>'']\<rparr>)"
    by (simp add: estado_inicial_def)
  from ent feliz s1 sale s2 vacia show ?thesis by simp
qed

end
